theory Spec2Isabelle
  imports Complex_Main "HOL-Library.Monad_Syntax"
begin

section \<open>Certificate parser: data model\<close>

text \<open>
  The development embeds \<^verbatim>\<open>Assistant/lib/parser.py\<close>, class \<^verbatim>\<open>CertificateParser\<close>.
  Python values that the parser handles are collected in one datatype, so that the
  comparison \<^verbatim>\<open>x == False\<close> behind \<^verbatim>\<open>list.count(False)\<close> can be written out.
  A dictionary literal is kept as the list of its key/value pairs in the order of the
  source. The float computed for the failure rate is modelled by the exact quotient.
\<close>

datatype pyval =
    PyNone
  | PyBool bool
  | PyInt int
  | PyFloat rat
  | PyStr string
  | PyDict "(string \<times> pyval) list"

text \<open>
  A node returned by \<^verbatim>\<open>browser.select\<close>. Its attribute \<^verbatim>\<open>.string\<close> is the text of the
  node, or \<^verbatim>\<open>None\<close> when the node has no single text child.
\<close>

datatype tag = Tag "string option"

fun tag_string :: "tag \<Rightarrow> pyval" where
  "tag_string (Tag None) = PyNone"
| "tag_string (Tag (Some s)) = PyStr s"

text \<open>A fetched page, seen through \<^verbatim>\<open>browser.select\<close>: selector to matching nodes.\<close>

type_synonym document = "string \<Rightarrow> tag list"

text \<open>
  What one call of \<^verbatim>\<open>browser.open\<close> does: it loads a page, or raises
  \<^verbatim>\<open>requests.exceptions.ConnectionError\<close>, \<^verbatim>\<open>requests.exceptions.Timeout\<close>, or an
  exception of some other class (named by the string).
\<close>

datatype open_result =
    Response document
  | ConnectionError
  | Timeout
  | OtherException string

text \<open>
  The outside world: for every identifier, the result of the k-th call of
  \<^verbatim>\<open>browser.open\<close> on its URL (k counted from 0).
\<close>

type_synonym fetch_env = "int \<Rightarrow> nat \<Rightarrow> open_result"

datatype py_exception =
    RequestException string
  | KeyError
  | AttributeError

datatype level = DEBUG | INFO | WARNING | ERROR

text \<open>An f-string: literal pieces and formatted values, in order.\<close>

datatype fpart = Lit string | Fmt pyval

text \<open>The observable effects: an HTTP GET (with its URL) and a log record.\<close>

datatype event =
    Request "fpart list"
  | Log level "fpart list"

section \<open>Class attributes\<close>

definition retry_attempts :: nat where
  "retry_attempts = 4"

definition batch_size :: int where
  "batch_size = 1000"

definition base_url :: string where
  "base_url = ''http://www.pace.sep.gob.mx/'' @ ''certificadosdgb/certificadoremesadetalles/''"

definition base_field :: string where
  "base_field = ''#_s_com_dgb_sep_domain_CertificadoRemesaDetalle_''"

definition batchSize :: int where
  "batchSize = batch_size"

section \<open>Field selectors\<close>

definition getField :: "string \<Rightarrow> string" where
  "getField field_name = base_field @ field_name @ ''_'' @ field_name @ ''_id''"

section \<open>Parsing one identifier\<close>

text \<open>
  The retry loop of \<^verbatim>\<open>parse\<close>. The loop state is \<^verbatim>\<open>attempts\<close> and \<^verbatim>\<open>request_ok\<close>; since
  \<^verbatim>\<open>attempts\<close> grows by one with every caught failure and the loop ends with the first
  success, the call made in a round is call number \<^verbatim>\<open>attempts\<close>. The result is
  \<open>Inr (Some page)\<close> when \<^verbatim>\<open>request_ok\<close> is true on exit, \<open>Inr None\<close> when it is false, and
  \<open>Inl\<close> when \<^verbatim>\<open>browser.open\<close> raised an exception that no \<^verbatim>\<open>except\<close> clause names.
\<close>

function open_loop ::
  "(nat \<Rightarrow> open_result) \<Rightarrow> int \<Rightarrow> nat \<Rightarrow> event list \<times> (py_exception + document option)"
where
  "open_loop fetch number_code attempts =
     (if attempts < retry_attempts then
        (case fetch attempts of
           Response page \<Rightarrow>
             ([Request [Lit base_url, Fmt (PyInt number_code)]], Inr (Some page))
         | ConnectionError \<Rightarrow>
             (case open_loop fetch number_code (Suc attempts) of (t, r) \<Rightarrow>
               (Request [Lit base_url, Fmt (PyInt number_code)]
                # Log WARNING [Lit ''Failed to retrieve page '', Fmt (PyInt number_code)]
                # t, r))
         | Timeout \<Rightarrow>
             (case open_loop fetch number_code (Suc attempts) of (t, r) \<Rightarrow>
               (Request [Lit base_url, Fmt (PyInt number_code)]
                # Log WARNING [Lit ''Timeout on page '', Fmt (PyInt number_code)]
                # t, r))
         | OtherException e \<Rightarrow>
             ([Request [Lit base_url, Fmt (PyInt number_code)]], Inl (RequestException e)))
      else ([], Inr None))"
  by pat_completeness auto
termination
  by (relation "measure (\<lambda>(fetch, number_code, attempts). retry_attempts - attempts)") auto

declare open_loop.simps [simp del]

text \<open>\<^verbatim>\<open>xs[0]\<close>: \<open>None\<close> stands for the \<^verbatim>\<open>IndexError\<close> of an empty list.\<close>

fun item0 :: "'a list \<Rightarrow> 'a option" where
  "item0 [] = None"
| "item0 (x # xs) = Some x"

text \<open>\<^verbatim>\<open>d[k]\<close> on a dictionary: \<open>None\<close> stands for the \<^verbatim>\<open>KeyError\<close>.\<close>

definition getitem :: "(string \<times> pyval) list \<Rightarrow> string \<Rightarrow> pyval option" where
  "getitem d k = map_of d k"

text \<open>
  The part of \<^verbatim>\<open>parse\<close> after the page is open (from the selection of
  \<^verbatim>\<open>tmpNombrePlantel\<close> on). The dictionary literal evaluates its entries from left to
  right; the first empty selection raises \<^verbatim>\<open>IndexError\<close>, which the handler turns into
  the return value \<^verbatim>\<open>False\<close>.
\<close>

definition parse_page :: "document \<Rightarrow> int \<Rightarrow> event list \<times> (py_exception + pyval)" where
  "parse_page browser number_code =
     (let plantel = browser (getField ''tmpNombrePlantel'') in
      if plantel \<noteq> [] then
        (let clave = browser (getField ''tmpClaveCct'');
             rvoe = browser (getField ''tmpRvoe'');
             tipo = browser (getField ''tmpTipoCertificado'');
             cert = browser (getField ''tmpFolioDigital'');
             nombre = browser (getField ''tmpNombreCompleto'');
             matricula = browser (getField ''matricula'');
             promedio = browser (getField ''promedio'');
             periodo = browser (getField ''tmpPeriodo'');
             found = Log DEBUG [Lit ''Certificate found on code '', Fmt (PyInt number_code)]
         in
         case do {
                nombre0 \<leftarrow> item0 nombre;
                plantel0 \<leftarrow> item0 plantel;
                clave0 \<leftarrow> item0 clave;
                rvoe0 \<leftarrow> item0 rvoe;
                matricula0 \<leftarrow> item0 matricula;
                promedio0 \<leftarrow> item0 promedio;
                periodo0 \<leftarrow> item0 periodo;
                tipo0 \<leftarrow> item0 tipo;
                cert0 \<leftarrow> item0 cert;
                Some [(''number'', PyInt number_code),
                      (''nombre'', tag_string nombre0),
                      (''plantel'', tag_string plantel0),
                      (''clave_trabajo'', tag_string clave0),
                      (''rvoe'', tag_string rvoe0),
                      (''matricula'', tag_string matricula0),
                      (''promedio'', tag_string promedio0),
                      (''periodo'', tag_string periodo0),
                      (''tipo_certificado'', tag_string tipo0),
                      (''certificado'', tag_string cert0)]
              } of
           None \<Rightarrow>
             ([found, Log ERROR [Lit ''Fields missing on '', Fmt (PyInt number_code)]],
              Inr (PyBool False))
         | Some student_dict \<Rightarrow>
             (case getitem student_dict ''certificado'' of
                None \<Rightarrow> ([found], Inl KeyError)
              | Some folio \<Rightarrow>
                  ([found, Log INFO [Lit ''Parsed '', Fmt folio]], Inr (PyDict student_dict))))
      else
        ([Log WARNING [Lit ''No certificate under code '', Fmt (PyInt number_code)]],
         Inr PyNone))"

definition parse :: "fetch_env \<Rightarrow> int \<Rightarrow> event list \<times> (py_exception + pyval)" where
  "parse env number_code =
     (case open_loop (env number_code) number_code 0 of
        (t, Inl e) \<Rightarrow> (t, Inl e)
      | (t, Inr None) \<Rightarrow>
          (t @ [Log ERROR [Lit ''Connection error on '', Fmt (PyInt number_code)]],
           Inr (PyBool False))
      | (t, Inr (Some page)) \<Rightarrow>
          (case parse_page page number_code of (t', r) \<Rightarrow>
            (t @ Log DEBUG [Lit ''Opened URL '', Lit base_url, Fmt (PyInt number_code)] # t', r)))"

section \<open>Retrieving a batch\<close>

text \<open>
  \<^verbatim>\<open>list(map(self.parse, cert_range))\<close>: the calls run one after the other; an exception
  of a call ends the evaluation.
\<close>

fun list_map_parse :: "fetch_env \<Rightarrow> int list \<Rightarrow> event list \<times> (py_exception + pyval list)" where
  "list_map_parse env [] = ([], Inr [])"
| "list_map_parse env (n # ns) =
     (case parse env n of
        (t, Inl e) \<Rightarrow> (t, Inl e)
      | (t, Inr v) \<Rightarrow>
          (case list_map_parse env ns of
             (t', Inl e) \<Rightarrow> (t @ t', Inl e)
           | (t', Inr vs) \<Rightarrow> (t @ t', Inr (v # vs))))"

text \<open>
  The value bound to \<^verbatim>\<open>cert_list\<close>: a list, or the generator that
  \<^verbatim>\<open>executor.map\<close> returns. The generator holds the futures of the submitted calls, each
  with the value or the exception of its call.
\<close>

datatype cert_seq =
    ListV "pyval list"
  | GeneratorV "(py_exception + pyval) list"

text \<open>
  \<^verbatim>\<open>executor.map(self.parse, cert_range)\<close> followed by the end of the \<^verbatim>\<open>with\<close> block,
  which waits for every submitted call. The log lines of the workers may interleave in
  any order; they are listed here in the order of submission.
\<close>

definition executor_map :: "fetch_env \<Rightarrow> int list \<Rightarrow> event list \<times> cert_seq" where
  "executor_map env ns =
     (concat (map (\<lambda>n. fst (parse env n)) ns), GeneratorV (map (\<lambda>n. snd (parse env n)) ns))"

text \<open>
  \<^verbatim>\<open>x == False\<close> in Python: true for \<^verbatim>\<open>False\<close> and for the numbers equal to zero, false
  for \<^verbatim>\<open>None\<close>, strings and dictionaries.
\<close>

fun eq_False :: "pyval \<Rightarrow> bool" where
  "eq_False (PyBool b) = (\<not> b)"
| "eq_False (PyInt i) = (i = 0)"
| "eq_False (PyFloat x) = (x = 0)"
| "eq_False PyNone = False"
| "eq_False (PyStr s) = False"
| "eq_False (PyDict d) = False"

text \<open>
  \<^verbatim>\<open>cert_list.count(False)\<close>. A list has the method; a generator object has no
  attribute \<^verbatim>\<open>count\<close>.
\<close>

fun count_False :: "cert_seq \<Rightarrow> py_exception + nat" where
  "count_False (ListV vs) = Inr (length (filter eq_False vs))"
| "count_False (GeneratorV fs) = Inl AttributeError"

definition cert_range :: "int \<Rightarrow> int list" where
  "cert_range file_no =
     (let range_start = batch_size * file_no
      in [range_start .. range_start + batch_size - 1])"

definition retrieveBatch ::
  "fetch_env \<Rightarrow> int \<Rightarrow> bool \<Rightarrow> event list \<times> (py_exception + cert_seq)"
where
  "retrieveBatch env file_no threaded =
     (let starting = [Log INFO [Lit ''Starting batch number '', Fmt (PyInt file_no)]];
          completed = [Log INFO [Lit ''Completed batch number '', Fmt (PyInt file_no)]]
      in
      case (if threaded then
              (case executor_map env (cert_range file_no) of (t, g) \<Rightarrow> (t, Inr g))
            else
              (case list_map_parse env (cert_range file_no) of
                 (t, Inl e) \<Rightarrow> (t, Inl e)
               | (t, Inr vs) \<Rightarrow> (t, Inr (ListV vs)))) of
        (t, Inl e) \<Rightarrow> (starting @ t, Inl e)
      | (t, Inr cert_list) \<Rightarrow>
          (case count_False cert_list of
             Inl e \<Rightarrow> (starting @ t @ completed, Inl e)
           | Inr failed_certs \<Rightarrow>
               if failed_certs \<ge> 1 then
                 (let failure_rate = (rat_of_nat failed_certs / rat_of_int batch_size) * 100
                  in (starting @ t @ completed @
                      [Log WARNING [Fmt (PyInt (int failed_certs)),
                                    Lit '' elements could not be obtained''],
                       Log WARNING [Fmt (PyFloat failure_rate), Lit ''% failure rate'']],
                      Inr cert_list))
               else (starting @ t @ completed, Inr cert_list)))"

section \<open>Notions used in the statements\<close>

text \<open>
  The field tokens that \<^verbatim>\<open>parse\<close> selects besides \<^verbatim>\<open>tmpNombrePlantel\<close>, in the order
  in which the dictionary literal reads them.
\<close>

definition required_fields :: "string list" where
  "required_fields =
     [''tmpNombreCompleto'', ''tmpClaveCct'', ''tmpRvoe'', ''matricula'', ''promedio'',
      ''tmpPeriodo'', ''tmpTipoCertificado'', ''tmpFolioDigital'']"

text \<open>An HTTP GET, a warning of the retry loop, a failure that the loop retries.\<close>

fun is_request :: "event \<Rightarrow> bool" where
  "is_request (Request url) = True"
| "is_request (Log l m) = False"

fun retry_warning :: "event \<Rightarrow> bool" where
  "retry_warning (Log WARNING [Lit s, Fmt v]) =
     (s = ''Failed to retrieve page '' \<or> s = ''Timeout on page '')"
| "retry_warning e = False"

fun transient :: "open_result \<Rightarrow> bool" where
  "transient ConnectionError = True"
| "transient Timeout = True"
| "transient (Response page) = False"
| "transient (OtherException e) = False"

text \<open>A page given by the list of its selectors that match, each with its nodes.\<close>

definition select_of :: "(string \<times> tag list) list \<Rightarrow> document" where
  "select_of nodes selector = (case map_of nodes selector of None \<Rightarrow> [] | Some ts \<Rightarrow> ts)"

section \<open>Pages and fetch results used as examples\<close>

text \<open>Every call of \<^verbatim>\<open>browser.open\<close> loads the given page.\<close>

definition serve :: "document \<Rightarrow> fetch_env" where
  "serve page = (\<lambda>number_code k. Response page)"

text \<open>
  Three pages: one where no selector matches, one with the institution name alone, and
  one with a node for each of the nine selectors of \<^verbatim>\<open>parse\<close>, together with the
  dictionary that \<^verbatim>\<open>parse\<close> is to build from the last.
\<close>

definition page_empty :: document where
  "page_empty = select_of []"

definition page_plantel_only :: document where
  "page_plantel_only = select_of [(getField ''tmpNombrePlantel'', [Tag (Some ''PREPARATORIA 1'')])]"

definition nodes_full :: "(string \<times> tag list) list" where
  "nodes_full =
     [(getField ''tmpNombrePlantel'', [Tag (Some ''PREPARATORIA 1'')]),
      (getField ''tmpClaveCct'', [Tag (Some ''09PBH0001A'')]),
      (getField ''tmpRvoe'', [Tag (Some ''870001'')]),
      (getField ''tmpTipoCertificado'', [Tag (Some ''TERMINACION'')]),
      (getField ''tmpFolioDigital'', [Tag (Some ''A123'')]),
      (getField ''tmpNombreCompleto'', [Tag (Some ''JUAN PEREZ'')]),
      (getField ''matricula'', [Tag (Some ''15001'')]),
      (getField ''promedio'', [Tag (Some ''8.5'')]),
      (getField ''tmpPeriodo'', [Tag (Some ''2016-2019'')])]"

definition page_full :: document where
  "page_full = select_of nodes_full"

definition record_full :: "int \<Rightarrow> (string \<times> pyval) list" where
  "record_full number_code =
     [(''number'', PyInt number_code),
      (''nombre'', PyStr ''JUAN PEREZ''),
      (''plantel'', PyStr ''PREPARATORIA 1''),
      (''clave_trabajo'', PyStr ''09PBH0001A''),
      (''rvoe'', PyStr ''870001''),
      (''matricula'', PyStr ''15001''),
      (''promedio'', PyStr ''8.5''),
      (''periodo'', PyStr ''2016-2019''),
      (''tipo_certificado'', PyStr ''TERMINACION''),
      (''certificado'', PyStr ''A123'')]"

text \<open>
  Fetch results: every request times out; the identifiers below 50 time out and the
  others have no certificate; three failures and then a page, malformed or complete;
  a connection error and then an exception of another class; a timeout and then the
  complete page; a failure, a missing certificate and records, by identifier; an
  exception of another class at once.
\<close>

definition env_timeout :: fetch_env where
  "env_timeout = (\<lambda>number_code k. Timeout)"

definition env_fifty :: fetch_env where
  "env_fifty = (\<lambda>number_code k. if number_code < 50 then Timeout else Response page_empty)"

definition env_fourth_malformed :: fetch_env where
  "env_fourth_malformed =
     (\<lambda>number_code k. if k < 3 then ConnectionError else Response page_plantel_only)"

definition env_fourth_full :: fetch_env where
  "env_fourth_full = (\<lambda>number_code k. if k < 3 then Timeout else Response page_full)"



definition env_mixed :: fetch_env where
  "env_mixed =
     (\<lambda>number_code k. if number_code = 1 then Timeout
                       else if number_code = 2 then Response page_empty
                       else Response page_full)"


section \<open>The batch range\<close>

lemma length_cert_range: "length (cert_range b) = 1000"
  by (simp add: cert_range_def batch_size_def Let_def)

lemma nth_cert_range: "i < 1000 \<Longrightarrow> cert_range b ! i = b * 1000 + int i"
  by (simp add: cert_range_def batch_size_def Let_def)

lemma set_cert_range: "set (cert_range b) = {n. b * 1000 \<le> n \<and> n \<le> b * 1000 + 999}"
  by (auto simp add: cert_range_def batch_size_def Let_def)

section \<open>Properties of the field selector\<close>

lemma getField_inj: "getField f = getField g \<Longrightarrow> f = g"
proof -
  assume h: "getField f = getField g"
  then have "length (getField f) = length (getField g)" by simp
  then have "length f = length g" by (simp add: getField_def)
  with h show "f = g" by (simp add: getField_def)
qed

text \<open>
  Claim C8. For every field name, the selector is the base prefix followed by the field
  name, an underscore, the field name again and \<^verbatim>\<open>_id\<close>: the name occurs at two places,
  and nothing else of the selector depends on it.
\<close>

theorem getField_selector:
  "getField f = ''#_s_com_dgb_sep_domain_CertificadoRemesaDetalle_'' @ f @ ''_'' @ f @ ''_id''
   \<and> length (getField f) = length base_field + 2 * length f + 4"
  by (simp add: getField_def base_field_def)

section \<open>Properties of parse\<close>

lemma item0_conv: "item0 xs = (if xs = [] then None else Some (hd xs))"
  by (cases xs) simp_all

lemma parse_page_value:
  "snd (parse_page doc n) =
     (if doc (getField ''tmpNombrePlantel'') = [] then Inr PyNone
      else if \<exists>f\<in>set required_fields. doc (getField f) = []
      then Inr (PyBool False)
      else Inr (PyDict
             [(''number'', PyInt n),
              (''nombre'', tag_string (hd (doc (getField ''tmpNombreCompleto'')))),
              (''plantel'', tag_string (hd (doc (getField ''tmpNombrePlantel'')))),
              (''clave_trabajo'', tag_string (hd (doc (getField ''tmpClaveCct'')))),
              (''rvoe'', tag_string (hd (doc (getField ''tmpRvoe'')))),
              (''matricula'', tag_string (hd (doc (getField ''matricula'')))),
              (''promedio'', tag_string (hd (doc (getField ''promedio'')))),
              (''periodo'', tag_string (hd (doc (getField ''tmpPeriodo'')))),
              (''tipo_certificado'', tag_string (hd (doc (getField ''tmpTipoCertificado'')))),
              (''certificado'', tag_string (hd (doc (getField ''tmpFolioDigital''))))]))"
  unfolding parse_page_def Let_def getitem_def item0_conv required_fields_def
  by simp

lemma parse_page_outcome:
  "\<exists>v. snd (parse_page doc n) = Inr v \<and> (v = PyBool False \<or> v = PyNone \<or> (\<exists>d. v = PyDict d))"
  unfolding parse_page_value by simp

lemma open_loop_transient:
  "a < retry_attempts \<Longrightarrow> transient (f a) \<Longrightarrow>
   open_loop f n a =
     (Request [Lit base_url, Fmt (PyInt n)]
      # Log WARNING [Lit (if f a = ConnectionError then ''Failed to retrieve page ''
                         else ''Timeout on page ''), Fmt (PyInt n)]
      # fst (open_loop f n (Suc a)), snd (open_loop f n (Suc a)))"
  by (cases "f a") (simp_all add: open_loop.simps [of f n a] case_prod_beta)

lemma open_loop_response:
  "a < retry_attempts \<Longrightarrow> f a = Response page \<Longrightarrow>
   open_loop f n a = ([Request [Lit base_url, Fmt (PyInt n)]], Inr (Some page))"
  by (simp add: open_loop.simps [of f n a])

lemma open_loop_other:
  "a < retry_attempts \<Longrightarrow> f a = OtherException e \<Longrightarrow>
   open_loop f n a = ([Request [Lit base_url, Fmt (PyInt n)]], Inl (RequestException e))"
  by (simp add: open_loop.simps [of f n a])

lemma open_loop_exhausted:
  "\<not> a < retry_attempts \<Longrightarrow> open_loop f n a = ([], Inr None)"
  by (simp add: open_loop.simps [of f n a])

lemma open_loop_requests:
  "length (filter is_request (fst (open_loop f n a))) \<le> retry_attempts - a"
proof (induction f n a rule: open_loop.induct)
  case (1 fetch number_code attempts)
  show ?case
  proof (cases "attempts < retry_attempts")
    case False
    then show ?thesis by (simp add: open_loop_exhausted)
  next
    case True
    show ?thesis
    proof (cases "fetch attempts")
      case (Response page)
      with True show ?thesis by (simp add: open_loop_response)
    next
      case ConnectionError
      with True "1.IH"(1) show ?thesis by (simp add: open_loop_transient)
    next
      case Timeout
      with True "1.IH"(2) show ?thesis by (simp add: open_loop_transient)
    next
      case (OtherException e)
      with True show ?thesis by (simp add: open_loop_other)
    qed
  qed
qed


lemma parse_value_cases:
  "snd (parse env n) =
     (case snd (open_loop (env n) n 0) of
        Inl e \<Rightarrow> Inl e
      | Inr None \<Rightarrow> Inr (PyBool False)
      | Inr (Some page) \<Rightarrow> snd (parse_page page n))"
  by (simp add: parse_def case_prod_beta split: sum.splits option.splits)

lemma parse_outcome:
  assumes "snd (parse env n) = Inr v"
  shows "v = PyBool False \<or> v = PyNone \<or> (\<exists>d. v = PyDict d)"
proof (cases "snd (open_loop (env n) n 0)")
  case (Inl e)
  with assms show ?thesis by (simp add: parse_value_cases)
next
  case (Inr r)
  show ?thesis
  proof (cases r)
    case None
    with Inr assms show ?thesis by (simp add: parse_value_cases)
  next
    case (Some page)
    with Inr assms have "snd (parse_page page n) = Inr v" by (simp add: parse_value_cases)
    with parse_page_outcome [of page n] show ?thesis by simp
  qed
qed


lemma parse_page_silent:
  "filter is_request (fst (parse_page page n)) = [] \<and>
   filter retry_warning (fst (parse_page page n)) = []"
  unfolding parse_page_def Let_def getitem_def item0_conv
  by simp

lemma parse_trace_cases:
  "fst (parse env n) =
     (case snd (open_loop (env n) n 0) of
        Inl e \<Rightarrow> fst (open_loop (env n) n 0)
      | Inr None \<Rightarrow>
          fst (open_loop (env n) n 0)
          @ [Log ERROR [Lit ''Connection error on '', Fmt (PyInt n)]]
      | Inr (Some page) \<Rightarrow>
          fst (open_loop (env n) n 0)
          @ Log DEBUG [Lit ''Opened URL '', Lit base_url, Fmt (PyInt n)]
          # fst (parse_page page n))"
  by (simp add: parse_def case_prod_beta split: sum.splits option.splits)

lemma parse_requests_open_loop:
  "filter is_request (fst (parse env n)) = filter is_request (fst (open_loop (env n) n 0))"
  by (simp add: parse_trace_cases parse_page_silent split: sum.splits option.splits)

lemma parse_retry_warnings_open_loop:
  "filter retry_warning (fst (parse env n)) = filter retry_warning (fst (open_loop (env n) n 0))"
  by (simp add: parse_trace_cases parse_page_silent split: sum.splits option.splits)

lemma open_loop_three_then_response:
  assumes "transient (f 0)" "transient (f 1)" "transient (f 2)" "f 3 = Response page"
  shows "snd (open_loop f n 0) = Inr (Some page)"
    and "length (filter is_request (fst (open_loop f n 0))) = 4"
    and "length (filter retry_warning (fst (open_loop f n 0))) = 3"
proof -
  have l3: "open_loop f n 3 = ([Request [Lit base_url, Fmt (PyInt n)]], Inr (Some page))"
    using assms(4) by (simp add: open_loop_response retry_attempts_def)
  have l2: "open_loop f n 2 =
     (Request [Lit base_url, Fmt (PyInt n)]
      # Log WARNING [Lit (if f 2 = ConnectionError then ''Failed to retrieve page ''
                         else ''Timeout on page ''), Fmt (PyInt n)]
      # fst (open_loop f n 3), snd (open_loop f n 3))"
    using open_loop_transient [of 2 f n] assms(3)
    by (simp add: retry_attempts_def numeral_3_eq_3 numeral_2_eq_2)
  have l1: "open_loop f n 1 =
     (Request [Lit base_url, Fmt (PyInt n)]
      # Log WARNING [Lit (if f 1 = ConnectionError then ''Failed to retrieve page ''
                         else ''Timeout on page ''), Fmt (PyInt n)]
      # fst (open_loop f n 2), snd (open_loop f n 2))"
    using open_loop_transient [of 1 f n] assms(2)
    by (simp add: retry_attempts_def numeral_2_eq_2)
  have l0: "open_loop f n 0 =
     (Request [Lit base_url, Fmt (PyInt n)]
      # Log WARNING [Lit (if f 0 = ConnectionError then ''Failed to retrieve page ''
                         else ''Timeout on page ''), Fmt (PyInt n)]
      # fst (open_loop f n 1), snd (open_loop f n 1))"
    using open_loop_transient [of 0 f n] assms(1)
    by (simp add: retry_attempts_def)
  show "snd (open_loop f n 0) = Inr (Some page)" unfolding l0 l1 l2 l3 by simp
  show "length (filter is_request (fst (open_loop f n 0))) = 4" unfolding l0 l1 l2 l3 by simp
  show "length (filter retry_warning (fst (open_loop f n 0))) = 3" unfolding l0 l1 l2 l3 by simp
qed

lemma open_loop_four_transient:
  assumes "transient (f 0)" "transient (f 1)" "transient (f 2)" "transient (f 3)"
  shows "snd (open_loop f n 0) = Inr None"
    and "length (filter is_request (fst (open_loop f n 0))) = 4"
    and "length (filter retry_warning (fst (open_loop f n 0))) = 4"
proof -
  have l4: "open_loop f n 4 = ([], Inr None)"
    by (simp add: open_loop_exhausted retry_attempts_def)
  have l3: "open_loop f n 3 =
     (Request [Lit base_url, Fmt (PyInt n)]
      # Log WARNING [Lit (if f 3 = ConnectionError then ''Failed to retrieve page ''
                         else ''Timeout on page ''), Fmt (PyInt n)]
      # fst (open_loop f n 4), snd (open_loop f n 4))"
    using open_loop_transient [of 3 f n] assms(4)
    by (simp add: retry_attempts_def)
  have l2: "open_loop f n 2 =
     (Request [Lit base_url, Fmt (PyInt n)]
      # Log WARNING [Lit (if f 2 = ConnectionError then ''Failed to retrieve page ''
                         else ''Timeout on page ''), Fmt (PyInt n)]
      # fst (open_loop f n 3), snd (open_loop f n 3))"
    using open_loop_transient [of 2 f n] assms(3)
    by (simp add: retry_attempts_def numeral_3_eq_3 numeral_2_eq_2)
  have l1: "open_loop f n 1 =
     (Request [Lit base_url, Fmt (PyInt n)]
      # Log WARNING [Lit (if f 1 = ConnectionError then ''Failed to retrieve page ''
                         else ''Timeout on page ''), Fmt (PyInt n)]
      # fst (open_loop f n 2), snd (open_loop f n 2))"
    using open_loop_transient [of 1 f n] assms(2)
    by (simp add: retry_attempts_def numeral_2_eq_2)
  have l0: "open_loop f n 0 =
     (Request [Lit base_url, Fmt (PyInt n)]
      # Log WARNING [Lit (if f 0 = ConnectionError then ''Failed to retrieve page ''
                         else ''Timeout on page ''), Fmt (PyInt n)]
      # fst (open_loop f n 1), snd (open_loop f n 1))"
    using open_loop_transient [of 0 f n] assms(1)
    by (simp add: retry_attempts_def)
  show "snd (open_loop f n 0) = Inr None" unfolding l0 l1 l2 l3 l4 by simp
  show "length (filter is_request (fst (open_loop f n 0))) = 4" unfolding l0 l1 l2 l3 l4 by simp
  show "length (filter retry_warning (fst (open_loop f n 0))) = 4" unfolding l0 l1 l2 l3 l4 by simp
qed

text \<open>
  Claim C4, as the code has it. Parsing one identifier issues at most four requests.
  When the first three calls of \<^verbatim>\<open>browser.open\<close> fail with a connection error or a
  timeout and the fourth loads a page, the result is what the extraction of that page
  gives: a record or \<^verbatim>\<open>None\<close>, and \<^verbatim>\<open>False\<close> exactly when the page has the
  institution node but lacks one of the other selected fields; four requests were made
  and three retry warnings logged. When all four calls fail in that way the result is
  \<^verbatim>\<open>False\<close>, with four requests, four retry warnings and the error record last.
\<close>

theorem parse_retry_ceiling:
  "length (filter is_request (fst (parse env n))) \<le> 4 \<and>
   (transient (env n 0) \<and> transient (env n 1) \<and> transient (env n 2) \<and> env n 3 = Response page
      \<longrightarrow> snd (parse env n) = snd (parse_page page n)
          \<and> (snd (parse env n) = Inr (PyBool False)) =
              (page (getField ''tmpNombrePlantel'') \<noteq> []
               \<and> (\<exists>f\<in>set required_fields. page (getField f) = []))
          \<and> length (filter is_request (fst (parse env n))) = 4
          \<and> length (filter retry_warning (fst (parse env n))) = 3) \<and>
   (transient (env n 0) \<and> transient (env n 1) \<and> transient (env n 2) \<and> transient (env n 3)
      \<longrightarrow> snd (parse env n) = Inr (PyBool False)
          \<and> length (filter is_request (fst (parse env n))) = 4
          \<and> length (filter retry_warning (fst (parse env n))) = 4
          \<and> last (fst (parse env n)) = Log ERROR [Lit ''Connection error on '', Fmt (PyInt n)])"
proof (intro conjI impI)
  show "length (filter is_request (fst (parse env n))) \<le> 4"
    using open_loop_requests [of "env n" n 0]
    by (simp add: parse_requests_open_loop retry_attempts_def)
next
  assume h: "transient (env n 0) \<and> transient (env n 1) \<and> transient (env n 2)
             \<and> env n 3 = Response page"
  note ol = open_loop_three_then_response [of "env n" page n]
  from h show v: "snd (parse env n) = snd (parse_page page n)"
    by (simp add: parse_value_cases ol(1))
  show "(snd (parse env n) = Inr (PyBool False)) =
          (page (getField ''tmpNombrePlantel'') \<noteq> []
           \<and> (\<exists>f\<in>set required_fields. page (getField f) = []))"
    unfolding v parse_page_value by simp
  from h show "length (filter is_request (fst (parse env n))) = 4"
    by (simp add: parse_requests_open_loop ol(2))
  from h show "length (filter retry_warning (fst (parse env n))) = 3"
    by (simp add: parse_retry_warnings_open_loop ol(3))
next
  assume h: "transient (env n 0) \<and> transient (env n 1) \<and> transient (env n 2)
             \<and> transient (env n 3)"
  note ol = open_loop_four_transient [of "env n" n]
  from h show "snd (parse env n) = Inr (PyBool False)"
    by (simp add: parse_value_cases ol(1))
  from h show "length (filter is_request (fst (parse env n))) = 4"
    by (simp add: parse_requests_open_loop ol(2))
  from h show "length (filter retry_warning (fst (parse env n))) = 4"
    by (simp add: parse_retry_warnings_open_loop ol(3))
  from h show "last (fst (parse env n)) = Log ERROR [Lit ''Connection error on '', Fmt (PyInt n)]"
    by (simp add: parse_trace_cases ol(1))
qed

lemma getField_eq_iff [simp]: "getField f = getField g \<longleftrightarrow> f = g"
  using getField_inj by auto

lemma page_empty_select [simp]: "page_empty selector = []"
  by (simp add: page_empty_def select_of_def)

lemma parse_page_empty: "snd (parse_page page_empty n) = Inr PyNone"
  by (simp add: parse_page_value)

lemma parse_page_plantel_only: "snd (parse_page page_plantel_only n) = Inr (PyBool False)"
  by (simp add: parse_page_value page_plantel_only_def select_of_def required_fields_def)

lemma parse_page_full: "snd (parse_page page_full n) = Inr (PyDict (record_full n))"
  by (simp add: parse_page_value page_full_def nodes_full_def select_of_def required_fields_def
      record_full_def)

lemma parse_first_response:
  "env n 0 = Response page \<Longrightarrow> snd (parse env n) = snd (parse_page page n)"
  by (simp add: parse_value_cases open_loop_response retry_attempts_def)

lemma parse_serve: "snd (parse (serve page) n) = snd (parse_page page n)"
  by (simp add: parse_first_response serve_def)

lemma parse_env_timeout: "snd (parse env_timeout n) = Inr (PyBool False)"
  by (simp add: parse_value_cases open_loop_four_transient(1) env_timeout_def)

text \<open>
  Claim C4 as stated fails: the first three calls fail with a connection error, the
  fourth loads a page that has the institution node and no other field, and the result
  is \<^verbatim>\<open>False\<close>, the value that also stands for a failed fetch.
\<close>

theorem parse_fourth_attempt_malformed:
  "transient (env_fourth_malformed 37 0) \<and> transient (env_fourth_malformed 37 1)
   \<and> transient (env_fourth_malformed 37 2)
   \<and> env_fourth_malformed 37 3 = Response page_plantel_only
   \<and> snd (parse env_fourth_malformed 37) = Inr (PyBool False)"
proof -
  have "snd (open_loop (env_fourth_malformed 37) 37 0) = Inr (Some page_plantel_only)"
    by (rule open_loop_three_then_response(1)) (simp_all add: env_fourth_malformed_def)
  then have "snd (parse env_fourth_malformed 37) = Inr (PyBool False)"
    by (simp add: parse_value_cases parse_page_plantel_only)
  then show ?thesis by (simp add: env_fourth_malformed_def)
qed

text \<open>
  The statement of C4 at identifier 37: three timeouts and then the complete page give
  the record; four timeouts give \<^verbatim>\<open>False\<close>.
\<close>

theorem parse_retry_ceiling_witness:
  "(transient (env_fourth_full 37 0) \<and> transient (env_fourth_full 37 1)
    \<and> transient (env_fourth_full 37 2) \<and> env_fourth_full 37 3 = Response page_full)
   \<and> snd (parse env_fourth_full 37) = Inr (PyDict (record_full 37))
   \<and> length (filter is_request (fst (parse env_fourth_full 37))) = 4
   \<and> length (filter retry_warning (fst (parse env_fourth_full 37))) = 3
   \<and> (transient (env_timeout 37 0) \<and> transient (env_timeout 37 1)
    \<and> transient (env_timeout 37 2) \<and> transient (env_timeout 37 3))
   \<and> snd (parse env_timeout 37) = Inr (PyBool False)
   \<and> length (filter retry_warning (fst (parse env_timeout 37))) = 4
   \<and> last (fst (parse env_timeout 37)) = Log ERROR [Lit ''Connection error on '', Fmt (PyInt 37)]"
proof -
  have a: "transient (env_fourth_full 37 0) \<and> transient (env_fourth_full 37 1)
    \<and> transient (env_fourth_full 37 2) \<and> env_fourth_full 37 3 = Response page_full"
    by (simp add: env_fourth_full_def)
  have b: "transient (env_timeout 37 0) \<and> transient (env_timeout 37 1)
    \<and> transient (env_timeout 37 2) \<and> transient (env_timeout 37 3)"
    by (simp add: env_timeout_def)
  show ?thesis
    using a b parse_retry_ceiling [of env_fourth_full 37 page_full]
      parse_retry_ceiling [of env_timeout 37 page_full]
    by (simp add: parse_page_full)
qed









section \<open>Properties of retrieveBatch\<close>

lemma list_map_parse_all:
  "\<forall>n\<in>set ns. snd (parse env n) = Inr (f n) \<Longrightarrow>
   list_map_parse env ns = (concat (map (\<lambda>n. fst (parse env n)) ns), Inr (map f ns))"
proof (induction ns)
  case Nil
  then show ?case by simp
next
  case (Cons n ns)
  then have a: "snd (parse env n) = Inr (f n)" by simp
  obtain t where t: "parse env n = (t, Inr (f n))" using a by (cases "parse env n") auto
  from Cons show ?case by (simp add: t)
qed

lemma list_map_parse_Inr:
  "snd (list_map_parse env ns) = Inr vs \<Longrightarrow> map (\<lambda>n. snd (parse env n)) ns = map Inr vs"
proof (induction ns arbitrary: vs)
  case Nil
  then show ?case by simp
next
  case (Cons n ns)
  then show ?case
    by (cases "parse env n"; cases "list_map_parse env ns")
       (auto split: sum.splits)
qed

lemma list_map_parse_trace:
  "snd (list_map_parse env ns) = Inr vs \<Longrightarrow>
   fst (list_map_parse env ns) = concat (map (\<lambda>n. fst (parse env n)) ns)"
proof (induction ns arbitrary: vs)
  case Nil
  then show ?case by simp
next
  case (Cons n ns)
  then show ?case
    by (cases "parse env n"; cases "list_map_parse env ns")
       (auto split: sum.splits)
qed




lemma retrieveBatch_sequential_raises:
  "snd (list_map_parse env (cert_range b)) = Inl e \<Longrightarrow>
   retrieveBatch env b False =
     (Log INFO [Lit ''Starting batch number '', Fmt (PyInt b)]
      # fst (list_map_parse env (cert_range b)), Inl e)"
  by (cases "list_map_parse env (cert_range b)") (simp add: retrieveBatch_def)

lemma retrieveBatch_sequential:
  "snd (list_map_parse env (cert_range b)) = Inr vs \<Longrightarrow>
   retrieveBatch env b False =
     (Log INFO [Lit ''Starting batch number '', Fmt (PyInt b)]
      # fst (list_map_parse env (cert_range b))
      @ Log INFO [Lit ''Completed batch number '', Fmt (PyInt b)]
      # (if 1 \<le> length (filter eq_False vs) then
           [Log WARNING [Fmt (PyInt (int (length (filter eq_False vs)))),
                         Lit '' elements could not be obtained''],
            Log WARNING [Fmt (PyFloat (rat_of_nat (length (filter eq_False vs)) / 1000 * 100)),
                         Lit ''% failure rate'']]
         else []),
      Inr (ListV vs))"
  by (cases "list_map_parse env (cert_range b)")
     (simp add: retrieveBatch_def batch_size_def Let_def)

lemma retrieveBatch_sequential_value:
  "snd (retrieveBatch env b False) =
     (case snd (list_map_parse env (cert_range b)) of
        Inl e \<Rightarrow> Inl e
      | Inr vs \<Rightarrow> Inr (ListV vs))"
  by (cases "snd (list_map_parse env (cert_range b))")
     (simp_all add: retrieveBatch_sequential_raises retrieveBatch_sequential)

lemma retrieveBatch_sequential_returns:
  assumes "\<forall>n\<in>set (cert_range b). \<exists>v. snd (parse env n) = Inr v"
  shows "\<exists>vs. snd (retrieveBatch env b False) = Inr (ListV vs) \<and> length vs = 1000
              \<and> (\<forall>i<1000. snd (parse env (b * 1000 + int i)) = Inr (vs ! i))"
proof -
  define f where "f = (\<lambda>n. projr (snd (parse env n)))"
  have "\<forall>n\<in>set (cert_range b). snd (parse env n) = Inr (f n)"
    using assms by (auto simp add: f_def)
  then have l: "list_map_parse env (cert_range b)
                = (concat (map (\<lambda>n. fst (parse env n)) (cert_range b)), Inr (map f (cert_range b)))"
    by (rule list_map_parse_all)
  then have v: "snd (retrieveBatch env b False) = Inr (ListV (map f (cert_range b)))"
    by (simp add: retrieveBatch_sequential_value)
  have "\<forall>i<1000. snd (parse env (b * 1000 + int i)) = Inr (map f (cert_range b) ! i)"
  proof (intro allI impI)
    fix i :: nat assume i: "i < 1000"
    then have "cert_range b ! i \<in> set (cert_range b)" by (simp add: length_cert_range)
    with \<open>\<forall>n\<in>set (cert_range b). snd (parse env n) = Inr (f n)\<close>
    have "snd (parse env (cert_range b ! i)) = Inr (f (cert_range b ! i))" by blast
    with i show "snd (parse env (b * 1000 + int i)) = Inr (map f (cert_range b) ! i)"
      by (simp add: nth_cert_range length_cert_range)
  qed
  with v show ?thesis by (auto simp add: length_cert_range)
qed

text \<open>
  Claim C6, as the code has it. What a sequential \<^verbatim>\<open>retrieveBatch\<close> returns is the list
  \<^verbatim>\<open>cert_list\<close> and nothing besides: a list of 1000 elements, where the element at
  position i is the outcome of the identifier \<^verbatim>\<open>file_no * 1000 + i\<close>, each of them
  \<^verbatim>\<open>False\<close>, \<^verbatim>\<open>None\<close> or a dictionary. The number of failures and the failure rate go
  to the log only; numbers of found and of missing certificates are not computed.
\<close>

theorem retrieveBatch_returns_outcomes_only:
  assumes "snd (retrieveBatch env b False) = Inr r"
  shows "\<exists>vs. r = ListV vs \<and> length vs = 1000
          \<and> (\<forall>i<1000. snd (parse env (b * 1000 + int i)) = Inr (vs ! i)
                      \<and> (vs ! i = PyBool False \<or> vs ! i = PyNone \<or> (\<exists>d. vs ! i = PyDict d)))"
proof -
  from assms obtain vs where vs: "snd (list_map_parse env (cert_range b)) = Inr vs"
    and r: "r = ListV vs"
    by (auto simp add: retrieveBatch_sequential_value split: sum.splits)
  from list_map_parse_Inr [OF vs]
  have m: "map (\<lambda>n. snd (parse env n)) (cert_range b) = map Inr vs" .
  then have "length (cert_range b) = length vs" by (metis length_map)
  then have len: "length vs = 1000" by (simp add: length_cert_range)
  have "\<forall>i<1000. snd (parse env (b * 1000 + int i)) = Inr (vs ! i)
                      \<and> (vs ! i = PyBool False \<or> vs ! i = PyNone \<or> (\<exists>d. vs ! i = PyDict d))"
  proof (intro allI impI)
    fix i :: nat assume i: "i < 1000"
    have "map (\<lambda>n. snd (parse env n)) (cert_range b) ! i = map Inr vs ! i"
      by (simp add: m)
    with i len have p: "snd (parse env (b * 1000 + int i)) = Inr (vs ! i)"
      by (simp add: nth_cert_range length_cert_range)
    with parse_outcome [OF p]
    show "snd (parse env (b * 1000 + int i)) = Inr (vs ! i)
          \<and> (vs ! i = PyBool False \<or> vs ! i = PyNone \<or> (\<exists>d. vs ! i = PyDict d))"
      by simp
  qed
  with r len show ?thesis by blast
qed




lemma retrieveBatch_threaded:
  "retrieveBatch env b True =
     (Log INFO [Lit ''Starting batch number '', Fmt (PyInt b)]
      # concat (map (\<lambda>n. fst (parse env n)) (cert_range b))
      @ [Log INFO [Lit ''Completed batch number '', Fmt (PyInt b)]],
      Inl AttributeError)"
  by (simp add: retrieveBatch_def executor_map_def)

lemma parse_env_fifty:
  "snd (parse env_fifty n) = Inr (if n < 50 then PyBool False else PyNone)"
proof (cases "n < 50")
  case True
  then show ?thesis
    by (simp add: parse_value_cases open_loop_four_transient(1) env_fifty_def)
next
  case False
  then have "snd (parse env_fifty n) = snd (parse_page page_empty n)"
    by (simp add: parse_first_response env_fifty_def)
  with False show ?thesis by (simp add: parse_page_empty)
qed

lemma parse_env_mixed:
  "snd (parse env_mixed n) =
     Inr (if n = 1 then PyBool False else if n = 2 then PyNone else PyDict (record_full n))"
proof -
  consider "n = 1" | "n = 2" | "n \<noteq> 1 \<and> n \<noteq> 2" by blast
  then show ?thesis
  proof cases
    case 1
    then show ?thesis
      by (simp add: parse_value_cases open_loop_four_transient(1) env_mixed_def)
  next
    case 2
    then have "snd (parse env_mixed n) = snd (parse_page page_empty n)"
      by (simp add: parse_first_response env_mixed_def)
    with 2 show ?thesis by (simp add: parse_page_empty)
  next
    case 3
    then have "snd (parse env_mixed n) = snd (parse_page page_full n)"
      by (simp add: parse_first_response env_mixed_def)
    with 3 show ?thesis by (simp add: parse_page_full)
  qed
qed


lemma list_map_parse_serve_empty:
  "list_map_parse (serve page_empty) ns =
     (concat (map (\<lambda>n. fst (parse (serve page_empty) n)) ns), Inr (replicate (length ns) PyNone))"
  using list_map_parse_all [of ns "serve page_empty" "\<lambda>n. PyNone"]
  by (simp add: parse_serve parse_page_empty map_replicate_const)

lemma list_map_parse_env_timeout:
  "list_map_parse env_timeout ns =
     (concat (map (\<lambda>n. fst (parse env_timeout n)) ns),
      Inr (replicate (length ns) (PyBool False)))"
  using list_map_parse_all [of ns env_timeout "\<lambda>n. PyBool False"]
  by (simp add: parse_env_timeout map_replicate_const)

lemma list_map_parse_env_fifty:
  "list_map_parse env_fifty ns =
     (concat (map (\<lambda>n. fst (parse env_fifty n)) ns),
      Inr (map (\<lambda>n. if n < 50 then PyBool False else PyNone) ns))"
  using list_map_parse_all [of ns env_fifty "\<lambda>n. if n < 50 then PyBool False else PyNone"]
  by (simp add: parse_env_fifty)

lemma list_map_parse_env_mixed:
  "list_map_parse env_mixed ns =
     (concat (map (\<lambda>n. fst (parse env_mixed n)) ns),
      Inr (map (\<lambda>n. if n = 1 then PyBool False else if n = 2 then PyNone
                    else PyDict (record_full n)) ns))"
  using list_map_parse_all [of ns env_mixed
      "\<lambda>n. if n = 1 then PyBool False else if n = 2 then PyNone else PyDict (record_full n)"]
  by (simp add: parse_env_mixed)


text \<open>
  Claim C1, at a batch where the first fifty identifiers time out and the others have no
  certificate: the sequential mode returns the list of outcomes, the threaded mode
  raises \<^verbatim>\<open>AttributeError\<close> and returns nothing.
\<close>

theorem retrieveBatch_modes_differ:
  "snd (retrieveBatch env_fifty 0 False) =
     Inr (ListV (map (\<lambda>n. if n < 50 then PyBool False else PyNone) (cert_range 0)))
   \<and> snd (retrieveBatch env_fifty 0 True) = Inl AttributeError"
  by (simp add: retrieveBatch_threaded retrieveBatch_sequential_value list_map_parse_env_fifty)

text \<open>
  Claim C2, at a batch where every request times out: each item resolves to the outcome
  \<^verbatim>\<open>False\<close>, in the sequential evaluation and in the futures of the executor; the
  sequential mode returns the list, the threaded mode raises \<^verbatim>\<open>AttributeError\<close>.
\<close>

theorem retrieveBatch_threaded_aborts:
  "snd (list_map_parse env_timeout (cert_range 3)) = Inr (replicate 1000 (PyBool False))
   \<and> snd (executor_map env_timeout (cert_range 3)) =
       GeneratorV (replicate 1000 (Inr (PyBool False)))
   \<and> snd (retrieveBatch env_timeout 3 False) = Inr (ListV (replicate 1000 (PyBool False)))
   \<and> snd (retrieveBatch env_timeout 3 True) = Inl AttributeError"
  by (simp add: retrieveBatch_threaded retrieveBatch_sequential_value list_map_parse_env_timeout
      length_cert_range executor_map_def parse_env_timeout map_replicate_const)

text \<open>
  Claim C6 as stated fails: for batch 2 with no certificate under any identifier, the
  value returned is the list of 1000 times \<^verbatim>\<open>None\<close>; it holds no count and no rate.
\<close>

theorem retrieveBatch_returns_bare_list:
  "snd (retrieveBatch (serve page_empty) 2 False) = Inr (ListV (replicate 1000 PyNone))"
  by (simp add: retrieveBatch_sequential_value list_map_parse_serve_empty length_cert_range)

text \<open>
  The statement of C6 at batch 0, where identifier 1 times out, identifier 2 has no
  certificate and every other identifier has the complete page.
\<close>

theorem retrieveBatch_returns_outcomes_only_witness:
  "snd (retrieveBatch env_mixed 0 False) =
     Inr (ListV (map (\<lambda>n. if n = 1 then PyBool False else if n = 2 then PyNone
                           else PyDict (record_full n)) (cert_range 0)))
   \<and> (\<exists>vs. ListV (map (\<lambda>n. if n = 1 then PyBool False else if n = 2 then PyNone
                           else PyDict (record_full n)) (cert_range 0)) = ListV vs
          \<and> length vs = 1000
          \<and> snd (parse env_mixed 1) = Inr (vs ! 1) \<and> vs ! 1 = PyBool False
          \<and> snd (parse env_mixed 2) = Inr (vs ! 2) \<and> vs ! 2 = PyNone
          \<and> snd (parse env_mixed 37) = Inr (vs ! 37) \<and> vs ! 37 = PyDict (record_full 37))"
proof -
  have h: "snd (retrieveBatch env_mixed 0 False) =
     Inr (ListV (map (\<lambda>n. if n = 1 then PyBool False else if n = 2 then PyNone
                           else PyDict (record_full n)) (cert_range 0)))"
    by (simp add: retrieveBatch_sequential_value list_map_parse_env_mixed)
  from retrieveBatch_returns_outcomes_only [OF h]
  obtain vs where vs: "ListV (map (\<lambda>n. if n = 1 then PyBool False else if n = 2 then PyNone
                           else PyDict (record_full n)) (cert_range 0)) = ListV vs"
    "length vs = 1000"
    "\<forall>i<1000. snd (parse env_mixed (0 * 1000 + int i)) = Inr (vs ! i)"
    by blast
  from vs(3) [rule_format, of 1] vs(3) [rule_format, of 2] vs(3) [rule_format, of 37]
  have "snd (parse env_mixed 1) = Inr (vs ! 1)"
    "snd (parse env_mixed 2) = Inr (vs ! 2)"
    "snd (parse env_mixed 37) = Inr (vs ! 37)"
    by simp_all
  then have "snd (parse env_mixed 1) = Inr (vs ! 1) \<and> vs ! 1 = PyBool False
          \<and> snd (parse env_mixed 2) = Inr (vs ! 2) \<and> vs ! 2 = PyNone
          \<and> snd (parse env_mixed 37) = Inr (vs ! 37) \<and> vs ! 37 = PyDict (record_full 37)"
    by (simp add: parse_env_mixed)
  with h vs(1,2) show ?thesis by blast
qed




text \<open>
  Claim C3, at the threaded mode. \<^verbatim>\<open>executor.map\<close> returns a generator, which only the
  branch \<^verbatim>\<open>if not threaded\<close> would turn into a list; the call of \<^verbatim>\<open>count\<close> on it raises
  \<^verbatim>\<open>AttributeError\<close>, for every batch and whatever the pages are, so that no sequence of
  outcomes is returned.
\<close>

theorem retrieveBatch_threaded_raises:
  "snd (retrieveBatch env file_no True) = Inl AttributeError"
  by (simp add: retrieveBatch_def executor_map_def)

end
